theory Spec2Isabelle
  imports Main
begin

section \<open>The Swift binding header of the tui grammar\<close>

text \<open>
  The source is one C header, \<^verbatim>\<open>bindings/swift/TreeSitterTui/tui.h\<close>. It is embedded as
  the list of its sixteen lines, each line being what the C preprocessor sees: a
  conditional-inclusion directive, a macro definition, a blank line, or a line of program
  text. Program text is kept as the declaration it spells.
\<close>

subsection \<open>C types and file-scope declarations\<close>

datatype ctype =
    Void
  | StructT string
  | TypedefName string
  | Const ctype
  | Pointer ctype

text \<open>
  A parameter list \<^verbatim>\<open>(void)\<close> is a prototype with no parameters; an empty pair of
  parentheses leaves the parameters unspecified.
\<close>

datatype params = Prototype "ctype list" | Unspecified

text \<open>
  The file-scope constructs a header can hold. A function definition carries the tokens of
  its body, an object definition the tokens of its initialiser.
\<close>

datatype decl =
    Typedef ctype string
  | StructDef string "(ctype \<times> string) list"
  | FunDecl ctype string params
  | FunDef ctype string params "string list"
  | VarDef ctype string "string list"

datatype item =
    Declaration decl
  | LinkageOpen string
  | BlockClose

datatype line =
    IfNDef string
  | IfDef string
  | Define string
  | EndIf
  | Source item
  | Blank

subsection \<open>The header\<close>

definition guard :: string where
  "guard = ''TREE_SITTER_TUI_H_''"

definition cplusplus :: string where
  "cplusplus = ''__cplusplus''"

definition ts_typedef :: decl where
  "ts_typedef = Typedef (StructT ''TSLanguage'') ''TSLanguage''"

definition ts_fundecl :: decl where
  "ts_fundecl =
     FunDecl (Pointer (Const (TypedefName ''TSLanguage''))) ''tree_sitter_tui'' (Prototype [])"

text \<open>
  The lines of the file, numbered as in the source:
  \<^verbatim>\<open>
   1  #ifndef TREE_SITTER_TUI_H_
   2  #define TREE_SITTER_TUI_H_
   3
   4  typedef struct TSLanguage TSLanguage;
   5
   6  #ifdef __cplusplus
   7  extern "C" {
   8  #endif
   9
  10  const TSLanguage *tree_sitter_tui(void);
  11
  12  #ifdef __cplusplus
  13  }
  14  #endif
  15
  16  #endif // TREE_SITTER_TUI_H_
  \<close>
  The comment of line 16 is dropped, as the preprocessor replaces it by a space.
\<close>

definition tui_h :: "line list" where
  "tui_h =
    [ IfNDef guard,
      Define guard,
      Blank,
      Source (Declaration ts_typedef),
      Blank,
      IfDef cplusplus,
      Source (LinkageOpen ''C''),
      EndIf,
      Blank,
      Source (Declaration ts_fundecl),
      Blank,
      IfDef cplusplus,
      Source BlockClose,
      EndIf,
      Blank,
      EndIf ]"

subsection \<open>Conditional inclusion\<close>

text \<open>
  The preprocessor walks the lines with the set of defined macros and the stack of open
  conditionals. Each stack entry says whether the group it opened is being kept, so the
  top entry decides for the current line; a skipped group still tracks nested
  conditionals. An \<^verbatim>\<open>#endif\<close> with no open conditional and a file that ends inside a
  conditional are errors.
\<close>

type_synonym macros = "string set"

datatype pp_error = UnbalancedEndif | UnterminatedConditional

fun active :: "bool list \<Rightarrow> bool" where
  "active [] = True"
| "active (b # st) = b"

fun emit :: "item \<Rightarrow> pp_error + macros \<times> item list \<Rightarrow> pp_error + macros \<times> item list" where
  "emit t (Inl e) = Inl e"
| "emit t (Inr (M, out)) = Inr (M, t # out)"

fun preprocess :: "line list \<Rightarrow> bool list \<Rightarrow> macros \<Rightarrow> pp_error + macros \<times> item list" where
  "preprocess [] st M = (if st = [] then Inr (M, []) else Inl UnterminatedConditional)"
| "preprocess (IfNDef x # ls) st M = preprocess ls ((active st \<and> x \<notin> M) # st) M"
| "preprocess (IfDef x # ls) st M = preprocess ls ((active st \<and> x \<in> M) # st) M"
| "preprocess (Define x # ls) st M = preprocess ls st (if active st then insert x M else M)"
| "preprocess (EndIf # ls) [] M = Inl UnbalancedEndif"
| "preprocess (EndIf # ls) (b # st) M = preprocess ls st M"
| "preprocess (Source t # ls) st M =
     (if active st then emit t (preprocess ls st M) else preprocess ls st M)"
| "preprocess (Blank # ls) st M = preprocess ls st M"

text \<open>
  \<open>include_n n M\<close> is a translation unit that includes the header \<open>n\<close> times in a
  row, starting with the macros \<open>M\<close> defined: each inclusion is preprocessed with the
  macros the previous ones left, and the text of all of them is concatenated.
\<close>

fun include_n :: "nat \<Rightarrow> macros \<Rightarrow> pp_error + macros \<times> item list" where
  "include_n 0 M = Inr (M, [])"
| "include_n (Suc n) M =
     (case preprocess tui_h [] M of
        Inl e \<Rightarrow> Inl e
      | Inr (M', out) \<Rightarrow>
          (case include_n n M' of
             Inl e \<Rightarrow> Inl e
           | Inr (M'', out') \<Rightarrow> Inr (M'', out @ out')))"

fun decls_of :: "item list \<Rightarrow> decl list" where
  "decls_of [] = []"
| "decls_of (Declaration d # ts) = d # decls_of ts"
| "decls_of (_ # ts) = decls_of ts"

subsection \<open>What the header declares\<close>

text \<open>
  The program text of a file, whatever the conditionals select, and the declarations in it.
\<close>

fun header_items :: "line list \<Rightarrow> item list" where
  "header_items [] = []"
| "header_items (Source t # ls) = t # header_items ls"
| "header_items (_ # ls) = header_items ls"

definition header_decls :: "line list \<Rightarrow> decl list" where
  "header_decls ls = decls_of (header_items ls)"

fun is_function :: "decl \<Rightarrow> bool" where
  "is_function (FunDecl r f ps) = True"
| "is_function (FunDef r f ps body) = True"
| "is_function _ = False"

text \<open>
  A declaration with content: the members of a structure, the body of a function, an
  object. Code and tables can only live in these.
\<close>

fun is_definition :: "decl \<Rightarrow> bool" where
  "is_definition (StructDef tag ms) = True"
| "is_definition (FunDef r f ps body) = True"
| "is_definition (VarDef t x init) = True"
| "is_definition _ = False"

fun return_type :: "decl list \<Rightarrow> string \<Rightarrow> ctype option" where
  "return_type [] g = None"
| "return_type (FunDecl r f ps # ds) g = (if f = g then Some r else return_type ds g)"
| "return_type (FunDef r f ps body # ds) g = (if f = g then Some r else return_type ds g)"
| "return_type (_ # ds) g = return_type ds g"

fun struct_members :: "decl list \<Rightarrow> string \<Rightarrow> (ctype \<times> string) list option" where
  "struct_members [] tag = None"
| "struct_members (StructDef tag' ms # ds) tag =
     (if tag' = tag then Some ms else struct_members ds tag)"
| "struct_members (_ # ds) tag = struct_members ds tag"

text \<open>
  Typedef names are expanded against the declarations in scope, the most recent first: a
  typedef can only mention names declared before it, so one pass replaces them all.
\<close>

fun subst_typedef :: "string \<Rightarrow> ctype \<Rightarrow> ctype \<Rightarrow> ctype" where
  "subst_typedef n u Void = Void"
| "subst_typedef n u (StructT tag) = StructT tag"
| "subst_typedef n u (TypedefName m) = (if m = n then u else TypedefName m)"
| "subst_typedef n u (Const t) = Const (subst_typedef n u t)"
| "subst_typedef n u (Pointer t) = Pointer (subst_typedef n u t)"

fun expand :: "decl list \<Rightarrow> ctype \<Rightarrow> ctype" where
  "expand [] t = t"
| "expand (Typedef u n # sc) t = expand sc (subst_typedef n u t)"
| "expand (_ # sc) t = expand sc t"

subsection \<open>What a caller may do with the returned handle\<close>

text \<open>
  The expressions a caller can build on the value a call returns: the value itself, an
  explicit conversion to another pointer type (\<^verbatim>\<open>(T)e\<close>), an indirection
  (\<^verbatim>\<open>*e\<close>) and a member selection (\<^verbatim>\<open>e.f\<close>; \<^verbatim>\<open>e->f\<close> is \<^verbatim>\<open>(*e).f\<close>).
\<close>

datatype expr = Handle | Cast ctype expr | Deref expr | Member expr string

fun const_qualified :: "ctype \<Rightarrow> bool" where
  "const_qualified (Const t) = True"
| "const_qualified _ = False"

fun complete :: "decl list \<Rightarrow> ctype \<Rightarrow> bool" where
  "complete ds Void = False"
| "complete ds (StructT tag) = (struct_members ds tag \<noteq> None)"
| "complete ds (TypedefName n) = False"
| "complete ds (Const t) = complete ds t"
| "complete ds (Pointer t) = True"

text \<open>The type a pointer points to; a qualifier on the pointer itself does not matter.\<close>

fun pointee :: "ctype \<Rightarrow> ctype option" where
  "pointee (Pointer t) = Some t"
| "pointee (Const t) = pointee t"
| "pointee _ = None"

fun member_type :: "decl list \<Rightarrow> ctype \<Rightarrow> string \<Rightarrow> ctype option" where
  "member_type ds (StructT tag) f =
     (case struct_members ds tag of
        None \<Rightarrow> None
      | Some ms \<Rightarrow> map_of (map (\<lambda>(t, x). (x, t)) ms) f)"
| "member_type ds (Const t) f = member_type ds t f"
| "member_type ds _ f = None"

text \<open>
  \<open>type_of ds h e\<close> is the type of \<open>e\<close> in a translation unit with the declarations
  \<open>ds\<close>, when the call returns the type \<open>h\<close>; \<open>None\<close> when \<open>e\<close> is refused. A cast
  converts any pointer to any pointer type, qualifiers of the pointed-to type included. An
  indirection needs a pointer. A member selection needs a structure that is defined and
  has the member, and the member of a const-qualified structure is const-qualified.
\<close>

fun type_of :: "decl list \<Rightarrow> ctype \<Rightarrow> expr \<Rightarrow> ctype option" where
  "type_of ds h Handle = Some (expand (rev ds) h)"
| "type_of ds h (Cast t e) =
     (case type_of ds h e of
        None \<Rightarrow> None
      | Some s \<Rightarrow>
          (if pointee s \<noteq> None \<and> pointee (expand (rev ds) t) \<noteq> None
           then Some (expand (rev ds) t) else None))"
| "type_of ds h (Deref e) =
     (case type_of ds h e of
        None \<Rightarrow> None
      | Some s \<Rightarrow> pointee s)"
| "type_of ds h (Member e f) =
     (case type_of ds h e of
        None \<Rightarrow> None
      | Some s \<Rightarrow>
          (case member_type ds s f of
             None \<Rightarrow> None
           | Some u \<Rightarrow>
               Some (if const_qualified s then Const (expand (rev ds) u)
                     else expand (rev ds) u)))"

text \<open>
  The value of a call and the value of a cast are no lvalues; an indirection is one, and
  a member of an lvalue is one.
\<close>

fun is_lvalue :: "expr \<Rightarrow> bool" where
  "is_lvalue Handle = False"
| "is_lvalue (Cast t e) = False"
| "is_lvalue (Deref e) = True"
| "is_lvalue (Member e f) = is_lvalue e"

text \<open>
  The left operand of an assignment must be a modifiable lvalue: an lvalue of complete
  type that is not const-qualified. (C also refuses a structure that has a const-qualified
  member; leaving that out only accepts more.) Reading needs a complete type.
\<close>

definition modifiable :: "decl list \<Rightarrow> ctype \<Rightarrow> expr \<Rightarrow> bool" where
  "modifiable ds h e =
     (is_lvalue e \<and>
      (case type_of ds h e of
         None \<Rightarrow> False
       | Some t \<Rightarrow> complete ds t \<and> \<not> const_qualified t))"

definition readable :: "decl list \<Rightarrow> ctype \<Rightarrow> expr \<Rightarrow> bool" where
  "readable ds h e =
     (case type_of ds h e of
        None \<Rightarrow> False
      | Some t \<Rightarrow> complete ds t)"

text \<open>
  \<open>call_modifiable ds g e\<close>: in a translation unit with the declarations \<open>ds\<close>, the
  expression \<open>e\<close>, built on the value of a call of the function \<open>g\<close> as \<open>ds\<close>
  declares it, may be assigned to. \<open>call_readable\<close> likewise for reading.
\<close>

definition call_modifiable :: "decl list \<Rightarrow> string \<Rightarrow> expr \<Rightarrow> bool" where
  "call_modifiable ds g e =
     (case return_type ds g of
        None \<Rightarrow> False
      | Some h \<Rightarrow> modifiable ds h e)"

definition call_readable :: "decl list \<Rightarrow> string \<Rightarrow> expr \<Rightarrow> bool" where
  "call_readable ds g e =
     (case return_type ds g of
        None \<Rightarrow> False
      | Some h \<Rightarrow> readable ds h e)"

text \<open>
  The parts of the object the handle points to, reached with the handle as it is: the
  whole object \<^verbatim>\<open>*h\<close>, a member of it \<^verbatim>\<open>h->f\<close>, a member of a member
  \<^verbatim>\<open>h->f.g\<close>, and so on. No cast, and no second indirection (which would leave the
  object for another one).
\<close>

datatype path = Whole | Field path string

fun object_lvalue :: "path \<Rightarrow> expr" where
  "object_lvalue Whole = Deref Handle"
| "object_lvalue (Field p f) = Member (object_lvalue p) f"

section \<open>Repeated inclusion\<close>

lemma preprocess_tui_h:
  "preprocess tui_h [] M =
     Inr (insert guard M,
          if guard \<in> M then []
          else if cplusplus \<in> M
            then [Declaration ts_typedef, LinkageOpen ''C'', Declaration ts_fundecl, BlockClose]
            else [Declaration ts_typedef, Declaration ts_fundecl])"
  by (simp add: tui_h_def guard_def cplusplus_def insert_absorb)

lemma include_n_guarded:
  "guard \<in> M \<Longrightarrow> include_n n M = Inr (M, [])"
  by (induction n) (simp_all add: preprocess_tui_h insert_absorb)

lemma include_n_Suc:
  "include_n (Suc n) M = preprocess tui_h [] M"
  by (simp add: preprocess_tui_h include_n_guarded)

text \<open>
  C10. Including the header any number of times (at least once) in one translation unit
  gives the same macros and the same program text as including it once, whatever macros
  are defined beforehand. When the guard macro is not defined beforehand, the declarations
  of the translation unit are then the typedef of \<open>TSLanguage\<close> and the declaration of
  \<open>tree_sitter_tui\<close>, each exactly once.
\<close>

theorem include_guard_idempotent:
  "include_n (Suc n) M = include_n (Suc 0) M \<and>
   (guard \<notin> M \<longrightarrow>
      (\<exists>out. include_n (Suc n) M = Inr (insert guard M, out) \<and>
             decls_of out = [ts_typedef, ts_fundecl]))"
  by (simp only: include_n_Suc) (simp add: preprocess_tui_h)

theorem include_guard_idempotent_witness:
  "include_n (Suc 2) {} = include_n (Suc 0) {} \<and>
   guard \<notin> ({} :: macros) \<and>
   include_n (Suc 2) {} = Inr ({guard}, [Declaration ts_typedef, Declaration ts_fundecl]) \<and>
   decls_of [Declaration ts_typedef, Declaration ts_fundecl] = [ts_typedef, ts_fundecl]"
  using include_guard_idempotent [of 2 "{}"]
  by (simp add: include_n_Suc preprocess_tui_h guard_def cplusplus_def)

section \<open>The declared interface\<close>

lemma header_decls_tui_h:
  "header_decls tui_h = [ts_typedef, ts_fundecl]"
  by (simp add: header_decls_def tui_h_def)

text \<open>
  C1. The header declares exactly one function, \<open>tree_sitter_tui\<close>, with the empty
  prototype \<^verbatim>\<open>(void)\<close>, returning a pointer to (const) \<open>TSLanguage\<close>, which names
  \<^verbatim>\<open>struct TSLanguage\<close>, a structure the header never defines. The header holds no
  definition at all (no function body, no object, no structure with members): its only
  other declaration is the typedef of the forward-declared structure.
\<close>

theorem tui_h_declares_one_function:
  "filter is_function (header_decls tui_h) =
     [FunDecl (Pointer (Const (TypedefName ''TSLanguage''))) ''tree_sitter_tui'' (Prototype [])] \<and>
   expand (rev (header_decls tui_h)) (Pointer (Const (TypedefName ''TSLanguage''))) =
     Pointer (Const (StructT ''TSLanguage'')) \<and>
   struct_members (header_decls tui_h) ''TSLanguage'' = None \<and>
   filter is_definition (header_decls tui_h) = [] \<and>
   filter (\<lambda>d. \<not> is_function d) (header_decls tui_h) =
     [Typedef (StructT ''TSLanguage'') ''TSLanguage'']"
  by (simp add: header_decls_tui_h ts_typedef_def ts_fundecl_def)

section \<open>Writing through the returned handle\<close>

lemma expand_Pointer: "expand sc (Pointer t) = Pointer (expand sc t)"
  by (induction sc t rule: expand.induct) simp_all

lemma expand_Const: "expand sc (Const t) = Const (expand sc t)"
  by (induction sc t rule: expand.induct) simp_all

lemma return_type_tui_h:
  "return_type (header_decls tui_h @ ds) ''tree_sitter_tui'' =
     Some (Pointer (Const (TypedefName ''TSLanguage'')))"
  by (simp add: header_decls_tui_h ts_typedef_def ts_fundecl_def)

text \<open>
  Every part of the object behind a pointer to a const-qualified type has a
  const-qualified type, by induction on the path to the part.
\<close>

lemma object_lvalue_const:
  "type_of ds (Pointer (Const t)) (object_lvalue p) = Some u \<Longrightarrow> const_qualified u"
proof (induction p arbitrary: u)
  case Whole
  then show ?case
    by (auto simp: expand_Pointer expand_Const)
next
  case (Field p f)
  from Field.prems obtain s where s: "type_of ds (Pointer (Const t)) (object_lvalue p) = Some s"
    by (auto split: option.splits)
  from Field.IH [OF s] have "const_qualified s" .
  with Field.prems s show ?case
    by (auto split: option.splits)
qed

text \<open>
  The rules do tell headers and callers apart. Where the caller's translation unit defines
  the structure, the parts of the object can be read through the handle as declared; and
  had the header declared the function without the qualifier, the same caller could assign
  to the object.
\<close>

lemma declared_handle_readable:
  "call_readable (header_decls tui_h @ [StructDef ''TSLanguage'' [(Pointer Void, ''payload'')]])
     ''tree_sitter_tui'' (object_lvalue (Field Whole ''payload''))"
  by (simp add: call_readable_def readable_def header_decls_tui_h ts_typedef_def ts_fundecl_def)

lemma unqualified_handle_modifiable:
  "call_modifiable
     [ts_typedef,
      FunDecl (Pointer (TypedefName ''TSLanguage'')) ''tree_sitter_tui'' (Prototype []),
      StructDef ''TSLanguage'' [(Pointer Void, ''payload'')]]
     ''tree_sitter_tui'' (object_lvalue Whole)"
  by (simp add: call_modifiable_def modifiable_def ts_typedef_def)

text \<open>
  C9, as stated, fails: a caller whose translation unit defines the structure and who
  converts the returned handle to \<^verbatim>\<open>TSLanguage *\<close> may assign to a member of the
  object, \<^verbatim>\<open>((TSLanguage *)tree_sitter_tui())->payload = ...\<close>.
\<close>

theorem cast_handle_modifiable:
  "call_modifiable
     (header_decls tui_h @ [StructDef ''TSLanguage'' [(Pointer Void, ''payload'')]])
     ''tree_sitter_tui''
     (Member (Deref (Cast (Pointer (TypedefName ''TSLanguage'')) Handle)) ''payload'')"
  by (simp add: call_modifiable_def modifiable_def header_decls_tui_h ts_typedef_def
      ts_fundecl_def)

text \<open>
  C9, amended. \<open>tree_sitter_tui\<close> returns a pointer to a const-qualified \<open>TSLanguage\<close>,
  so in every C translation unit that includes the header, whatever the caller declares
  after it (\<open>ds\<close>, a definition of the structure included), no part of the object reached
  with the returned handle as it is, without a cast (\<^verbatim>\<open>*h\<close>, \<^verbatim>\<open>h->f\<close>,
  \<^verbatim>\<open>h->f.g\<close>, ...), may be assigned to.
\<close>

theorem tree_sitter_tui_object_not_modifiable:
  "return_type (header_decls tui_h) ''tree_sitter_tui'' =
     Some (Pointer (Const (TypedefName ''TSLanguage''))) \<and>
   \<not> call_modifiable (header_decls tui_h @ ds) ''tree_sitter_tui'' (object_lvalue p)"
proof
  show "return_type (header_decls tui_h) ''tree_sitter_tui'' =
          Some (Pointer (Const (TypedefName ''TSLanguage'')))"
    using return_type_tui_h [of "[]"] by simp
next
  show "\<not> call_modifiable (header_decls tui_h @ ds) ''tree_sitter_tui'' (object_lvalue p)"
    by (auto simp: call_modifiable_def modifiable_def return_type_tui_h
        split: option.splits dest: object_lvalue_const)
qed

end
